theory Spec2Isabelle
  imports Main
begin

section \<open>Strings, paths and text files\<close>

text \<open>
  A Python \<open>str\<close> is modelled by the list of the bytes of its UTF-8 encoding, so that
  every literal of the two launch files is a \<open>string\<close> and the non-ASCII description
  text of the launch argument is written with its bytes. Carriage return, line feed and
  the path separator are ASCII and never occur inside a multi-byte sequence, so the
  functions below act on this representation as Python acts on code points.
\<close>

definition CR :: char where
  "CR = CHR 0x0D"

definition LF :: char where
  "LF = CHR 0x0A"

text \<open>
  \<open>os.path.join\<close> of \<open>posixpath\<close> (the launch files run under ROS 2 on Linux): a
  component that starts with the separator replaces what was joined so far, otherwise
  it is appended, with a separator unless the path is empty or already ends in one.
\<close>

definition join_component :: "string \<Rightarrow> string \<Rightarrow> string" where
  "join_component path b =
     (if take 1 b = ''/'' then b
      else if path = [] \<or> last path = CHR ''/'' then path @ b
      else path @ ''/'' @ b)"

definition os_path_join :: "string \<Rightarrow> string list \<Rightarrow> string" where
  "os_path_join a ps = foldl join_component a ps"

text \<open>
  A file opened with mode \<open>'r'\<close> and no \<open>newline\<close> argument is read in universal
  newlines mode: \<open>read()\<close> returns the decoded text with every \<open>\r\n\<close> and every
  remaining \<open>\r\<close> replaced by \<open>\n\<close>.
\<close>

fun universal_newlines :: "string \<Rightarrow> string" where
  "universal_newlines [] = []"
| "universal_newlines [c] = (if c = CR then [LF] else [c])"
| "universal_newlines (c # d # cs) =
     (if c = CR then
        (if d = LF then LF # universal_newlines cs
         else LF # universal_newlines (d # cs))
      else c # universal_newlines (d # cs))"

section \<open>The environment of a launch file\<close>

datatype error =
    PackageNotFoundError string
  | FileNotFoundError string
  | UnicodeDecodeError string

text \<open>
  What the two functions can observe and touch: the ament index (package name to share
  directory), the files on disk (path to bytes), the codec of the locale that
  \<open>open\<close> uses when no encoding is given, the \<open>name:=value\<close> arguments the user gave on
  the command line of \<open>ros2 launch\<close>, and the log of the paths \<open>open\<close> was called on.
\<close>

record world =
  share_dirs :: "string \<rightharpoonup> string"
  files :: "string \<rightharpoonup> string"
  codec :: "string \<Rightarrow> string option"
  launch_args :: "(string \<times> string) list"
  open_calls :: "string list"

type_synonym 'a io = "world \<Rightarrow> (error + 'a) \<times> world"

definition return_io :: "'a \<Rightarrow> 'a io" where
  "return_io x w = (Inr x, w)"

text \<open>An exception ends the function: the rest of the body is not run.\<close>

definition bind_io :: "'a io \<Rightarrow> ('a \<Rightarrow> 'b io) \<Rightarrow> 'b io" where
  "bind_io m f w = (case m w of (Inl e, w') \<Rightarrow> (Inl e, w') | (Inr x, w') \<Rightarrow> f x w')"

definition get_package_share_directory :: "string \<Rightarrow> string io" where
  "get_package_share_directory package_name w =
     (case share_dirs w package_name of
        None \<Rightarrow> (Inl (PackageNotFoundError package_name), w)
      | Some path \<Rightarrow> (Inr path, w))"

text \<open>
  \<open>with open(path, 'r') as f: text = f.read()\<close>: the call is logged, a missing file
  raises, bytes the codec rejects raise, and the text comes back with its newlines
  translated.
\<close>

definition open_read :: "string \<Rightarrow> string io" where
  "open_read path w =
     (let w' = w\<lparr>open_calls := open_calls w @ [path]\<rparr> in
      case files w path of
        None \<Rightarrow> (Inl (FileNotFoundError path), w')
      | Some raw \<Rightarrow>
          (case codec w raw of
             None \<Rightarrow> (Inl (UnicodeDecodeError path), w')
           | Some decoded \<Rightarrow> (Inr (universal_newlines decoded), w')))"

section \<open>Launch actions\<close>

datatype param_value = PStr string | PBool bool

type_synonym param_dict = "(string \<times> param_value) list"

text \<open>A keyword argument that the call does not give is \<open>None\<close>.\<close>

record node =
  package :: string
  executable :: string
  arguments :: "string list option"
  parameters :: "param_dict list option"
  node_output :: "string option"

datatype launch_description_source = PythonLaunchDescriptionSource string

record include_launch_description =
  launch_description_source :: launch_description_source
  launch_arguments :: "(string \<times> string) list"

record declare_launch_argument =
  name :: string
  default_value :: string
  description :: string

datatype entity =
    Node node
  | IncludeLaunchDescription include_launch_description
  | DeclareLaunchArgument declare_launch_argument

datatype launch_description = LaunchDescription (entities: "entity list")

section \<open>gazebo\_launch.py\<close>

definition gazebo_launch_generate_launch_description :: "launch_description io" where
  "gazebo_launch_generate_launch_description =
     bind_io (get_package_share_directory ''gazebo_ros'') (\<lambda>pkg_gazebo.
     bind_io (get_package_share_directory ''uwrobot_description'') (\<lambda>pkg_model.
     let world_path = os_path_join pkg_model [''world'', ''empty.world''];
         urdf_path = os_path_join pkg_model [''urdf'', ''uwrobot.urdf'']
     in
     bind_io (open_read urdf_path) (\<lambda>robot_desc.
     let robot_state_publisher = Node \<lparr>
           package = ''robot_state_publisher'',
           executable = ''robot_state_publisher'',
           arguments = None,
           parameters = Some [[(''robot_description'', PStr robot_desc),
                               (''use_sim_time'', PBool True)]],
           node_output = None\<rparr>;
         gazebo = IncludeLaunchDescription \<lparr>
           launch_description_source = PythonLaunchDescriptionSource
             (os_path_join pkg_gazebo [''launch'', ''gazebo.launch.py'']),
           launch_arguments = [(''verbose'', ''true''), (''world'', world_path)]\<rparr>;
         spawn = Node \<lparr>
           package = ''gazebo_ros'',
           executable = ''spawn_entity.py'',
           arguments = Some [''-topic'', ''/robot_description'',
                             ''-entity'', ''zh_bot'',
                             ''-x'', ''0'', ''-y'', ''0'', ''-z'', ''0.4''],
           parameters = None,
           node_output = Some ''screen''\<rparr>;
         joint_state_spawner = Node \<lparr>
           package = ''controller_manager'',
           executable = ''spawner'',
           arguments = Some [''joint_state_broadcaster''],
           parameters = None,
           node_output = Some ''screen''\<rparr>;
         velocity_spawner = Node \<lparr>
           package = ''controller_manager'',
           executable = ''spawner'',
           arguments = Some [''velocity_controller''],
           parameters = None,
           node_output = Some ''screen''\<rparr>;
         steering_spawner = Node \<lparr>
           package = ''controller_manager'',
           executable = ''spawner'',
           arguments = Some [''steering_controller''],
           parameters = None,
           node_output = Some ''screen''\<rparr>
     in return_io (LaunchDescription [
          robot_state_publisher,
          gazebo,
          spawn,
          joint_state_spawner,
          velocity_spawner,
          steering_spawner]))))"

section \<open>rviz2\_launch.py\<close>

text \<open>
  The description of the launch argument is the text \<open>URDF\<close>, a space and five Chinese
  characters (U+7684, U+7EDD, U+5BF9, U+8DEF, U+5F84), here in UTF-8.
\<close>

definition model_description :: string where
  "model_description = ''URDF '' @
     [CHR 0xE7, CHR 0x9A, CHR 0x84, CHR 0xE7, CHR 0xBB, CHR 0x9D, CHR 0xE5, CHR 0xAF,
      CHR 0xB9, CHR 0xE8, CHR 0xB7, CHR 0xAF, CHR 0xE5, CHR 0xBE, CHR 0x84]"

definition rviz2_launch_generate_launch_description :: "launch_description io" where
  "rviz2_launch_generate_launch_description =
     bind_io (get_package_share_directory ''uwrobot_description'') (\<lambda>pkg_share.
     let model_path = os_path_join pkg_share [''urdf'', ''uwrobot.urdf''];
         rviz_config_file = os_path_join pkg_share [''resource'', ''resource.rviz''];
         action_declare_arg_mode_path = DeclareLaunchArgument \<lparr>
           name = ''model'',
           default_value = model_path,
           description = model_description\<rparr>
     in
     bind_io (open_read model_path) (\<lambda>robot_description.
     let robot_state_publisher_node = Node \<lparr>
           package = ''robot_state_publisher'',
           executable = ''robot_state_publisher'',
           arguments = None,
           parameters = Some [[(''robot_description'', PStr robot_description)]],
           node_output = None\<rparr>;
         joint_state_publisher_node = Node \<lparr>
           package = ''joint_state_publisher'',
           executable = ''joint_state_publisher'',
           arguments = None,
           parameters = None,
           node_output = None\<rparr>;
         rviz_node = Node \<lparr>
           package = ''rviz2'',
           executable = ''rviz2'',
           arguments = Some [''-d'', rviz_config_file],
           parameters = None,
           node_output = None\<rparr>
     in return_io (LaunchDescription [
          action_declare_arg_mode_path,
          joint_state_publisher_node,
          robot_state_publisher_node,
          rviz_node])))"

section \<open>Concrete environments\<close>

text \<open>The strict \<open>ascii\<close> codec: bytes below 128 decode to themselves, any other byte raises.\<close>

definition ascii_codec :: "string \<Rightarrow> string option" where
  "ascii_codec raw = (if list_all (\<lambda>b. of_char b < (128::nat)) raw then Some raw else None)"

text \<open>Two URDF files of one line: one ends in a line feed, one in \<open>\r\n\<close>.\<close>

definition urdf_lf :: string where
  "urdf_lf = ''<robot/>'' @ [LF]"

definition urdf_crlf :: string where
  "urdf_crlf = ''<robot/>'' @ [CR, LF]"

text \<open>
  An installed workspace: both packages are in the index and the URDF with the line
  feed is in place.
\<close>

definition installed :: world where
  "installed = \<lparr>
     share_dirs = [''gazebo_ros'' \<mapsto> ''/opt/ros/share/gazebo_ros'',
                   ''uwrobot_description'' \<mapsto> ''/ws/share/uwrobot_description''],
     files = [''/ws/share/uwrobot_description/urdf/uwrobot.urdf'' \<mapsto> urdf_lf],
     codec = ascii_codec,
     launch_args = [],
     open_calls = []\<rparr>"

text \<open>The same workspace with a URDF saved with Windows line ends.\<close>

definition installed_crlf :: world where
  "installed_crlf = installed\<lparr>
     files := [''/ws/share/uwrobot_description/urdf/uwrobot.urdf'' \<mapsto> urdf_crlf]\<rparr>"

text \<open>The same workspace with no URDF on disk.\<close>

definition installed_no_urdf :: world where
  "installed_no_urdf = installed\<lparr>files := Map.empty\<rparr>"

section \<open>Reading a launch description\<close>

text \<open>
  The values given for \<open>robot_description\<close> in the parameter dictionaries of the
  \<open>robot_state_publisher\<close> nodes of a launch description.
\<close>

fun robot_description_of :: "entity \<Rightarrow> param_value list" where
  "robot_description_of (Node n) =
     (if executable n = ''robot_state_publisher'' then
        (case parameters n of
           None \<Rightarrow> []
         | Some ds \<Rightarrow> concat (map (\<lambda>d. case map_of d ''robot_description'' of
                                          None \<Rightarrow> [] | Some v \<Rightarrow> [v]) ds))
      else [])"
| "robot_description_of (IncludeLaunchDescription i) = []"
| "robot_description_of (DeclareLaunchArgument d) = []"

definition robot_description_params :: "launch_description \<Rightarrow> param_value list" where
  "robot_description_params ld = concat (map robot_description_of (entities ld))"

text \<open>The values of the \<open>world\<close> launch argument of the included launch files.\<close>

fun world_argument_of :: "entity \<Rightarrow> string list" where
  "world_argument_of (IncludeLaunchDescription i) =
     (case map_of (launch_arguments i) ''world'' of None \<Rightarrow> [] | Some v \<Rightarrow> [v])"
| "world_argument_of (Node n) = []"
| "world_argument_of (DeclareLaunchArgument d) = []"

definition world_arguments :: "launch_description \<Rightarrow> string list" where
  "world_arguments ld = concat (map world_argument_of (entities ld))"

text \<open>A controller-spawn request: the \<open>spawner\<close> executable of \<open>controller_manager\<close>.\<close>

fun is_spawner :: "entity \<Rightarrow> bool" where
  "is_spawner (Node n) = (package n = ''controller_manager'' \<and> executable n = ''spawner'')"
| "is_spawner (IncludeLaunchDescription i) = False"
| "is_spawner (DeclareLaunchArgument d) = False"

text \<open>What an action starts or declares, for stating the order of a list at a glance.\<close>

fun action_kind :: "entity \<Rightarrow> string" where
  "action_kind (Node n) = executable n"
| "action_kind (IncludeLaunchDescription i) = ''IncludeLaunchDescription''"
| "action_kind (DeclareLaunchArgument d) = ''DeclareLaunchArgument''"

section \<open>The Python process that loads launch files\<close>

text \<open>
  A launch description is a mutable Python object. The process that imports the two
  modules holds the objects their functions have returned so far; a reference is the
  index of an object in that store. Each call of \<open>generate_launch_description\<close>
  evaluates a list display and a constructor call, so its result is a new object; the
  modules keep no reference to it and have no statement that runs after \<open>return\<close>.
\<close>

datatype launcher = Gazebo_launch | Rviz2_launch

fun generate_launch_description :: "launcher \<Rightarrow> launch_description io" where
  "generate_launch_description Gazebo_launch = gazebo_launch_generate_launch_description"
| "generate_launch_description Rviz2_launch = rviz2_launch_generate_launch_description"

record process =
  environment :: world
  heap :: "launch_description list"

definition call_launcher :: "launcher \<Rightarrow> process \<Rightarrow> (error + nat) \<times> process" where
  "call_launcher l p =
     (case generate_launch_description l (environment p) of
        (Inl e, w') \<Rightarrow> (Inl e, p\<lparr>environment := w'\<rparr>)
      | (Inr ld, w') \<Rightarrow>
          (Inr (length (heap p)), p\<lparr>environment := w', heap := heap p @ [ld]\<rparr>))"

section \<open>Python objects\<close>

text \<open>
  What a launch file builds are mutable Python objects. An object lives in a store and is
  known by its reference, its index there. Each action is an object, the list display
  in the \<open>return\<close> statement is an object that holds the references of its items, and the
  launch description is an object that holds the reference of the list it was given.
\<close>

datatype object = OEntity entity | OList "nat list" | OLaunchDescription nat

text \<open>
  The state of the interpreter: the environment outside the process, the store of
  objects, and the log of the references on which an in-place update was carried out.
\<close>

record runtime =
  outside :: world
  objects :: "object list"
  mutations :: "nat list"

type_synonym 'a py = "runtime \<Rightarrow> (error + 'a) \<times> runtime"

definition bind_py :: "'a py \<Rightarrow> ('a \<Rightarrow> 'b py) \<Rightarrow> 'b py" where
  "bind_py m f s = (case m s of (Inl e, s') \<Rightarrow> (Inl e, s') | (Inr x, s') \<Rightarrow> f x s')"

text \<open>A call that acts on the environment alone.\<close>

definition lift_io :: "'a io \<Rightarrow> 'a py" where
  "lift_io m s = (case m (outside s) of (r, w') \<Rightarrow> (r, s\<lparr>outside := w'\<rparr>))"

text \<open>A constructor call or a list display: a new object, at a reference not used before.\<close>

definition new_object :: "object \<Rightarrow> nat py" where
  "new_object v s = (Inr (length (objects s)), s\<lparr>objects := objects s @ [v]\<rparr>)"

text \<open>
  An in-place update (\<open>append\<close>, an item or attribute assignment): the object at the
  reference is replaced and the update is logged. Neither launch file has a statement of
  this kind.
\<close>

definition set_object :: "nat \<Rightarrow> object \<Rightarrow> unit py" where
  "set_object a v s =
     (Inr (), s\<lparr>objects := (objects s)[a := v], mutations := mutations s @ [a]\<rparr>)"

text \<open>
  \<open>generate_launch_description\<close> of \<open>gazebo_launch.py\<close>, statement by statement, with
  the objects it creates. It returns the reference of the launch description.
\<close>

definition gazebo_launch_generate_launch_description_obj :: "nat py" where
  "gazebo_launch_generate_launch_description_obj =
     bind_py (lift_io (get_package_share_directory ''gazebo_ros'')) (\<lambda>pkg_gazebo.
     bind_py (lift_io (get_package_share_directory ''uwrobot_description'')) (\<lambda>pkg_model.
     let world_path = os_path_join pkg_model [''world'', ''empty.world''];
         urdf_path = os_path_join pkg_model [''urdf'', ''uwrobot.urdf'']
     in
     bind_py (lift_io (open_read urdf_path)) (\<lambda>robot_desc.
     bind_py (new_object (OEntity (Node \<lparr>
           package = ''robot_state_publisher'',
           executable = ''robot_state_publisher'',
           arguments = None,
           parameters = Some [[(''robot_description'', PStr robot_desc),
                               (''use_sim_time'', PBool True)]],
           node_output = None\<rparr>))) (\<lambda>robot_state_publisher.
     bind_py (new_object (OEntity (IncludeLaunchDescription \<lparr>
           launch_description_source = PythonLaunchDescriptionSource
             (os_path_join pkg_gazebo [''launch'', ''gazebo.launch.py'']),
           launch_arguments = [(''verbose'', ''true''), (''world'', world_path)]\<rparr>))) (\<lambda>gazebo.
     bind_py (new_object (OEntity (Node \<lparr>
           package = ''gazebo_ros'',
           executable = ''spawn_entity.py'',
           arguments = Some [''-topic'', ''/robot_description'',
                             ''-entity'', ''zh_bot'',
                             ''-x'', ''0'', ''-y'', ''0'', ''-z'', ''0.4''],
           parameters = None,
           node_output = Some ''screen''\<rparr>))) (\<lambda>spawn.
     bind_py (new_object (OEntity (Node \<lparr>
           package = ''controller_manager'',
           executable = ''spawner'',
           arguments = Some [''joint_state_broadcaster''],
           parameters = None,
           node_output = Some ''screen''\<rparr>))) (\<lambda>joint_state_spawner.
     bind_py (new_object (OEntity (Node \<lparr>
           package = ''controller_manager'',
           executable = ''spawner'',
           arguments = Some [''velocity_controller''],
           parameters = None,
           node_output = Some ''screen''\<rparr>))) (\<lambda>velocity_spawner.
     bind_py (new_object (OEntity (Node \<lparr>
           package = ''controller_manager'',
           executable = ''spawner'',
           arguments = Some [''steering_controller''],
           parameters = None,
           node_output = Some ''screen''\<rparr>))) (\<lambda>steering_spawner.
     bind_py (new_object (OList [
          robot_state_publisher,
          gazebo,
          spawn,
          joint_state_spawner,
          velocity_spawner,
          steering_spawner])) (\<lambda>actions.
     new_object (OLaunchDescription actions)))))))))))"

text \<open>
  \<open>generate_launch_description\<close> of \<open>rviz2_launch.py\<close> in the same way. The launch
  argument is declared before the file is opened, and the nodes are created in another
  order than the list names them.
\<close>

definition rviz2_launch_generate_launch_description_obj :: "nat py" where
  "rviz2_launch_generate_launch_description_obj =
     bind_py (lift_io (get_package_share_directory ''uwrobot_description'')) (\<lambda>pkg_share.
     let model_path = os_path_join pkg_share [''urdf'', ''uwrobot.urdf''];
         rviz_config_file = os_path_join pkg_share [''resource'', ''resource.rviz'']
     in
     bind_py (new_object (OEntity (DeclareLaunchArgument \<lparr>
           name = ''model'',
           default_value = model_path,
           description = model_description\<rparr>))) (\<lambda>action_declare_arg_mode_path.
     bind_py (lift_io (open_read model_path)) (\<lambda>robot_description.
     bind_py (new_object (OEntity (Node \<lparr>
           package = ''robot_state_publisher'',
           executable = ''robot_state_publisher'',
           arguments = None,
           parameters = Some [[(''robot_description'', PStr robot_description)]],
           node_output = None\<rparr>))) (\<lambda>robot_state_publisher_node.
     bind_py (new_object (OEntity (Node \<lparr>
           package = ''joint_state_publisher'',
           executable = ''joint_state_publisher'',
           arguments = None,
           parameters = None,
           node_output = None\<rparr>))) (\<lambda>joint_state_publisher_node.
     bind_py (new_object (OEntity (Node \<lparr>
           package = ''rviz2'',
           executable = ''rviz2'',
           arguments = Some [''-d'', rviz_config_file],
           parameters = None,
           node_output = None\<rparr>))) (\<lambda>rviz_node.
     bind_py (new_object (OList [
          action_declare_arg_mode_path,
          joint_state_publisher_node,
          robot_state_publisher_node,
          rviz_node])) (\<lambda>actions.
     new_object (OLaunchDescription actions))))))))"

fun generate_launch_description_obj :: "launcher \<Rightarrow> nat py" where
  "generate_launch_description_obj Gazebo_launch = gazebo_launch_generate_launch_description_obj"
| "generate_launch_description_obj Rviz2_launch = rviz2_launch_generate_launch_description_obj"

text \<open>Calls of the two functions, one after the other, whether they return or raise.\<close>

fun generate_launch_descriptions_obj :: "launcher list \<Rightarrow> runtime \<Rightarrow> runtime" where
  "generate_launch_descriptions_obj [] s = s"
| "generate_launch_descriptions_obj (l # ls) s =
     generate_launch_descriptions_obj ls (snd (generate_launch_description_obj l s))"

text \<open>Following a reference; a reference to nothing, or to an object of another kind, gives \<open>None\<close>.\<close>

definition object_at :: "object list \<Rightarrow> nat \<Rightarrow> object option" where
  "object_at os a = (if a < length os then Some (os ! a) else None)"

definition entity_at :: "object list \<Rightarrow> nat \<Rightarrow> entity option" where
  "entity_at os a = (case object_at os a of Some (OEntity e) \<Rightarrow> Some e | _ \<Rightarrow> None)"

text \<open>The launch description that a reference stands for: its actions, in the order of its list.\<close>

definition read_description :: "object list \<Rightarrow> nat \<Rightarrow> launch_description option" where
  "read_description os r =
     (case object_at os r of
        Some (OLaunchDescription l) \<Rightarrow>
          (case object_at os l of
             Some (OList refs) \<Rightarrow> map_option LaunchDescription (those (map (entity_at os) refs))
           | _ \<Rightarrow> None)
      | _ \<Rightarrow> None)"

text \<open>An interpreter that has just started, in the installed workspace.\<close>

definition booted :: runtime where
  "booted = \<lparr>outside = installed, objects = [], mutations = []\<rparr>"

section \<open>Auxiliary facts\<close>

lemma gazebo_launch_run:
  assumes "share_dirs w ''gazebo_ros'' = Some pkg_gazebo"
    and "share_dirs w ''uwrobot_description'' = Some pkg_model"
    and "files w (os_path_join pkg_model [''urdf'', ''uwrobot.urdf'']) = Some raw"
    and "codec w raw = Some decoded"
  shows "gazebo_launch_generate_launch_description w =
    (Inr (LaunchDescription [
       Node \<lparr>package = ''robot_state_publisher'', executable = ''robot_state_publisher'',
             arguments = None,
             parameters = Some [[(''robot_description'', PStr (universal_newlines decoded)),
                                 (''use_sim_time'', PBool True)]],
             node_output = None\<rparr>,
       IncludeLaunchDescription \<lparr>
         launch_description_source = PythonLaunchDescriptionSource
           (os_path_join pkg_gazebo [''launch'', ''gazebo.launch.py'']),
         launch_arguments = [(''verbose'', ''true''),
                             (''world'', os_path_join pkg_model [''world'', ''empty.world''])]\<rparr>,
       Node \<lparr>package = ''gazebo_ros'', executable = ''spawn_entity.py'',
             arguments = Some [''-topic'', ''/robot_description'', ''-entity'', ''zh_bot'',
                               ''-x'', ''0'', ''-y'', ''0'', ''-z'', ''0.4''],
             parameters = None, node_output = Some ''screen''\<rparr>,
       Node \<lparr>package = ''controller_manager'', executable = ''spawner'',
             arguments = Some [''joint_state_broadcaster''],
             parameters = None, node_output = Some ''screen''\<rparr>,
       Node \<lparr>package = ''controller_manager'', executable = ''spawner'',
             arguments = Some [''velocity_controller''],
             parameters = None, node_output = Some ''screen''\<rparr>,
       Node \<lparr>package = ''controller_manager'', executable = ''spawner'',
             arguments = Some [''steering_controller''],
             parameters = None, node_output = Some ''screen''\<rparr>]),
     w\<lparr>open_calls := open_calls w @ [os_path_join pkg_model [''urdf'', ''uwrobot.urdf'']]\<rparr>)"
  using assms
  by (simp add: gazebo_launch_generate_launch_description_def bind_io_def return_io_def
      get_package_share_directory_def open_read_def Let_def)

lemma installed_share_gazebo:
  "share_dirs installed ''gazebo_ros'' = Some ''/opt/ros/share/gazebo_ros''"
  by (simp add: installed_def)

lemma installed_share_model:
  "share_dirs installed ''uwrobot_description'' = Some ''/ws/share/uwrobot_description''"
  by (simp add: installed_def)

lemma installed_urdf_path:
  "os_path_join ''/ws/share/uwrobot_description'' [''urdf'', ''uwrobot.urdf'']
     = ''/ws/share/uwrobot_description/urdf/uwrobot.urdf''"
  by (simp add: os_path_join_def join_component_def)

lemma installed_urdf_file:
  "files installed (os_path_join ''/ws/share/uwrobot_description'' [''urdf'', ''uwrobot.urdf''])
     = Some urdf_lf"
  by (simp add: installed_urdf_path) (simp add: installed_def)

lemma installed_urdf_text:
  "codec installed urdf_lf = Some urdf_lf"
  by (simp add: installed_def ascii_codec_def urdf_lf_def LF_def)

lemma rviz2_launch_run:
  assumes "share_dirs w ''uwrobot_description'' = Some pkg_share"
    and "files w (os_path_join pkg_share [''urdf'', ''uwrobot.urdf'']) = Some raw"
    and "codec w raw = Some decoded"
  shows "rviz2_launch_generate_launch_description w =
    (Inr (LaunchDescription [
       DeclareLaunchArgument \<lparr>name = ''model'',
         default_value = os_path_join pkg_share [''urdf'', ''uwrobot.urdf''],
         description = model_description\<rparr>,
       Node \<lparr>package = ''joint_state_publisher'', executable = ''joint_state_publisher'',
             arguments = None, parameters = None, node_output = None\<rparr>,
       Node \<lparr>package = ''robot_state_publisher'', executable = ''robot_state_publisher'',
             arguments = None,
             parameters = Some [[(''robot_description'', PStr (universal_newlines decoded))]],
             node_output = None\<rparr>,
       Node \<lparr>package = ''rviz2'', executable = ''rviz2'',
             arguments = Some [''-d'', os_path_join pkg_share [''resource'', ''resource.rviz'']],
             parameters = None, node_output = None\<rparr>]),
     w\<lparr>open_calls := open_calls w @ [os_path_join pkg_share [''urdf'', ''uwrobot.urdf'']]\<rparr>)"
  using assms
  by (simp add: rviz2_launch_generate_launch_description_def bind_io_def return_io_def
      get_package_share_directory_def open_read_def Let_def)

lemma gazebo_launch_success:
  assumes "fst (gazebo_launch_generate_launch_description w) = Inr ld"
  obtains pkg_gazebo pkg_model raw decoded where
    "share_dirs w ''gazebo_ros'' = Some pkg_gazebo"
    "share_dirs w ''uwrobot_description'' = Some pkg_model"
    "files w (os_path_join pkg_model [''urdf'', ''uwrobot.urdf'']) = Some raw"
    "codec w raw = Some decoded"
  using assms
  by (auto simp add: gazebo_launch_generate_launch_description_def bind_io_def return_io_def
      get_package_share_directory_def open_read_def Let_def split: option.splits)

lemma rviz2_launch_success:
  assumes "fst (rviz2_launch_generate_launch_description w) = Inr ld"
  obtains pkg_share raw decoded where
    "share_dirs w ''uwrobot_description'' = Some pkg_share"
    "files w (os_path_join pkg_share [''urdf'', ''uwrobot.urdf'']) = Some raw"
    "codec w raw = Some decoded"
  using assms
  by (auto simp add: rviz2_launch_generate_launch_description_def bind_io_def return_io_def
      get_package_share_directory_def open_read_def Let_def split: option.splits)

lemma universal_newlines_no_CR: "CR \<notin> set s \<Longrightarrow> universal_newlines s = s"
  by (induction s rule: universal_newlines.induct) auto

lemma universal_newlines_length: "length (universal_newlines s) \<le> length s"
  by (induction s rule: universal_newlines.induct) auto

lemma universal_newlines_CR_free: "CR \<notin> set (universal_newlines s)"
  by (induction s rule: universal_newlines.induct) (auto simp: CR_def LF_def)

lemma os_path_join_plain:
  assumes "a \<noteq> []" and "last a \<noteq> CHR ''/''"
  shows "os_path_join a [''world'', ''empty.world''] = a @ ''/world/empty.world''"
  using assms by (simp add: os_path_join_def join_component_def)

lemma crlf_share_gazebo:
  "share_dirs installed_crlf ''gazebo_ros'' = Some ''/opt/ros/share/gazebo_ros''"
  by (simp add: installed_crlf_def installed_def)

lemma crlf_share_model:
  "share_dirs installed_crlf ''uwrobot_description'' = Some ''/ws/share/uwrobot_description''"
  by (simp add: installed_crlf_def installed_def)

lemma crlf_urdf_file:
  "files installed_crlf (os_path_join ''/ws/share/uwrobot_description'' [''urdf'', ''uwrobot.urdf''])
     = Some urdf_crlf"
  by (simp add: installed_urdf_path) (simp add: installed_crlf_def)

lemma crlf_urdf_text:
  "codec installed_crlf urdf_crlf = Some urdf_crlf"
  by (simp add: installed_crlf_def installed_def ascii_codec_def urdf_crlf_def LF_def CR_def)

lemma crlf_translated: "universal_newlines urdf_crlf = urdf_lf"
  by (simp add: urdf_crlf_def urdf_lf_def CR_def LF_def)

lemma lf_kept: "universal_newlines urdf_lf = urdf_lf"
  by (simp add: urdf_lf_def CR_def LF_def)

section \<open>The simulation launcher\<close>

text \<open>
  C1: whenever both packages resolve and the URDF is read, \<open>generate_launch_description\<close>
  of \<open>gazebo_launch.py\<close> returns a launch description of exactly six actions, in this
  order: the \<open>robot_state_publisher\<close> node, the include of \<open>gazebo.launch.py\<close>, the
  \<open>spawn_entity.py\<close> node, and the spawners of \<open>joint_state_broadcaster\<close>,
  \<open>velocity_controller\<close> and \<open>steering_controller\<close>.
\<close>

theorem gazebo_launch_six_actions:
  assumes "share_dirs w ''gazebo_ros'' = Some pkg_gazebo"
    and "share_dirs w ''uwrobot_description'' = Some pkg_model"
    and "files w (os_path_join pkg_model [''urdf'', ''uwrobot.urdf'']) = Some raw"
    and "codec w raw = Some decoded"
  shows "map_sum id (length \<circ> entities) (fst (gazebo_launch_generate_launch_description w)) = Inr 6
    \<and> fst (gazebo_launch_generate_launch_description w) =
      Inr (LaunchDescription [
       Node \<lparr>package = ''robot_state_publisher'', executable = ''robot_state_publisher'',
             arguments = None,
             parameters = Some [[(''robot_description'', PStr (universal_newlines decoded)),
                                 (''use_sim_time'', PBool True)]],
             node_output = None\<rparr>,
       IncludeLaunchDescription \<lparr>
         launch_description_source = PythonLaunchDescriptionSource
           (os_path_join pkg_gazebo [''launch'', ''gazebo.launch.py'']),
         launch_arguments = [(''verbose'', ''true''),
                             (''world'', os_path_join pkg_model [''world'', ''empty.world''])]\<rparr>,
       Node \<lparr>package = ''gazebo_ros'', executable = ''spawn_entity.py'',
             arguments = Some [''-topic'', ''/robot_description'', ''-entity'', ''zh_bot'',
                               ''-x'', ''0'', ''-y'', ''0'', ''-z'', ''0.4''],
             parameters = None, node_output = Some ''screen''\<rparr>,
       Node \<lparr>package = ''controller_manager'', executable = ''spawner'',
             arguments = Some [''joint_state_broadcaster''],
             parameters = None, node_output = Some ''screen''\<rparr>,
       Node \<lparr>package = ''controller_manager'', executable = ''spawner'',
             arguments = Some [''velocity_controller''],
             parameters = None, node_output = Some ''screen''\<rparr>,
       Node \<lparr>package = ''controller_manager'', executable = ''spawner'',
             arguments = Some [''steering_controller''],
             parameters = None, node_output = Some ''screen''\<rparr>])"
  by (simp add: gazebo_launch_run [OF assms])

theorem gazebo_launch_six_actions_witness:
  "share_dirs installed ''gazebo_ros'' = Some ''/opt/ros/share/gazebo_ros''
   \<and> share_dirs installed ''uwrobot_description'' = Some ''/ws/share/uwrobot_description''
   \<and> files installed (os_path_join ''/ws/share/uwrobot_description'' [''urdf'', ''uwrobot.urdf''])
       = Some urdf_lf
   \<and> codec installed urdf_lf = Some urdf_lf
   \<and> map_sum id (length \<circ> entities) (fst (gazebo_launch_generate_launch_description installed))
       = Inr 6
   \<and> map_sum id (map action_kind \<circ> entities)
        (fst (gazebo_launch_generate_launch_description installed))
       = Inr [''robot_state_publisher'', ''IncludeLaunchDescription'', ''spawn_entity.py'',
              ''spawner'', ''spawner'', ''spawner'']"
  using gazebo_launch_six_actions [OF installed_share_gazebo installed_share_model
      installed_urdf_file installed_urdf_text]
    installed_share_gazebo installed_share_model installed_urdf_file installed_urdf_text
  by simp

section \<open>The visualization launcher\<close>

text \<open>
  C2: whenever the package resolves and the URDF is read, \<open>generate_launch_description\<close>
  of \<open>rviz2_launch.py\<close> returns a launch description of exactly four actions, in the
  declared order: the declaration of the \<open>model\<close> launch argument, then the
  \<open>joint_state_publisher\<close> node, the \<open>robot_state_publisher\<close> node and the \<open>rviz2\<close>
  process with the arguments \<open>-d\<close> and the path of its configuration file.
\<close>

theorem rviz2_launch_four_actions:
  assumes "share_dirs w ''uwrobot_description'' = Some pkg_share"
    and "files w (os_path_join pkg_share [''urdf'', ''uwrobot.urdf'']) = Some raw"
    and "codec w raw = Some decoded"
  shows "map_sum id (length \<circ> entities) (fst (rviz2_launch_generate_launch_description w)) = Inr 4
    \<and> fst (rviz2_launch_generate_launch_description w) =
      Inr (LaunchDescription [
       DeclareLaunchArgument \<lparr>name = ''model'',
         default_value = os_path_join pkg_share [''urdf'', ''uwrobot.urdf''],
         description = model_description\<rparr>,
       Node \<lparr>package = ''joint_state_publisher'', executable = ''joint_state_publisher'',
             arguments = None, parameters = None, node_output = None\<rparr>,
       Node \<lparr>package = ''robot_state_publisher'', executable = ''robot_state_publisher'',
             arguments = None,
             parameters = Some [[(''robot_description'', PStr (universal_newlines decoded))]],
             node_output = None\<rparr>,
       Node \<lparr>package = ''rviz2'', executable = ''rviz2'',
             arguments = Some [''-d'', os_path_join pkg_share [''resource'', ''resource.rviz'']],
             parameters = None, node_output = None\<rparr>])"
  by (simp add: rviz2_launch_run [OF assms])

theorem rviz2_launch_four_actions_witness:
  "share_dirs installed ''uwrobot_description'' = Some ''/ws/share/uwrobot_description''
   \<and> files installed (os_path_join ''/ws/share/uwrobot_description'' [''urdf'', ''uwrobot.urdf''])
       = Some urdf_lf
   \<and> codec installed urdf_lf = Some urdf_lf
   \<and> map_sum id (length \<circ> entities) (fst (rviz2_launch_generate_launch_description installed))
       = Inr 4
   \<and> map_sum id (map action_kind \<circ> entities)
        (fst (rviz2_launch_generate_launch_description installed))
       = Inr [''DeclareLaunchArgument'', ''joint_state_publisher'', ''robot_state_publisher'',
              ''rviz2'']"
  using rviz2_launch_four_actions [OF installed_share_model installed_urdf_file installed_urdf_text]
    installed_share_model installed_urdf_file installed_urdf_text
  by simp

section \<open>The robot description\<close>

text \<open>
  C3, as the claim states it, fails: with a URDF that ends in \<open>\r\n\<close> on disk, both
  launchers pass a \<open>robot_description\<close> that ends in \<open>\n\<close> alone, which is not the
  content of the file.
\<close>

theorem robot_description_not_verbatim:
  "urdf_crlf = ''<robot/>'' @ [CHR 0x0D, CHR 0x0A]
   \<and> urdf_lf = ''<robot/>'' @ [CHR 0x0A]
   \<and> files installed_crlf ''/ws/share/uwrobot_description/urdf/uwrobot.urdf'' = Some urdf_crlf
   \<and> map_sum id robot_description_params
        (fst (gazebo_launch_generate_launch_description installed_crlf))
      = Inr [PStr urdf_lf]
   \<and> map_sum id robot_description_params
        (fst (rviz2_launch_generate_launch_description installed_crlf))
      = Inr [PStr urdf_lf]
   \<and> PStr urdf_lf \<noteq> PStr urdf_crlf"
proof -
  have "urdf_crlf = ''<robot/>'' @ [CHR 0x0D, CHR 0x0A]"
    and "urdf_lf = ''<robot/>'' @ [CHR 0x0A]"
    by (simp_all add: urdf_crlf_def urdf_lf_def CR_def LF_def)
  moreover have "files installed_crlf ''/ws/share/uwrobot_description/urdf/uwrobot.urdf''
      = Some urdf_crlf"
    by (simp add: installed_crlf_def)
  moreover have "map_sum id robot_description_params
        (fst (gazebo_launch_generate_launch_description installed_crlf))
      = Inr [PStr urdf_lf]"
    by (simp add: gazebo_launch_run [OF crlf_share_gazebo crlf_share_model crlf_urdf_file crlf_urdf_text]
        robot_description_params_def crlf_translated)
  moreover have "map_sum id robot_description_params
        (fst (rviz2_launch_generate_launch_description installed_crlf))
      = Inr [PStr urdf_lf]"
    by (simp add: rviz2_launch_run [OF crlf_share_model crlf_urdf_file crlf_urdf_text]
        robot_description_params_def crlf_translated)
  moreover have "PStr urdf_lf \<noteq> PStr urdf_crlf"
    by (simp add: urdf_crlf_def urdf_lf_def CR_def LF_def)
  ultimately show ?thesis by blast
qed

text \<open>
  C3, amended: for every URDF that is read at the resolved path, the parameter
  dictionary of the \<open>robot_state_publisher\<close> node, in both launchers, maps
  \<open>robot_description\<close> to the text that the text-mode \<open>read()\<close> returns: the decoded
  content of the file with every \<open>\r\n\<close> and every other \<open>\r\<close> replaced by \<open>\n\<close>, and
  no other change. For a content without a carriage return that is the decoded content
  itself.
\<close>

theorem robot_description_is_text_read:
  assumes "share_dirs w ''uwrobot_description'' = Some pkg_share"
    and "files w (os_path_join pkg_share [''urdf'', ''uwrobot.urdf'']) = Some raw"
    and "codec w raw = Some decoded"
  shows "map_sum id robot_description_params (fst (rviz2_launch_generate_launch_description w))
      = Inr [PStr (universal_newlines decoded)]
    \<and> (share_dirs w ''gazebo_ros'' \<noteq> None \<longrightarrow>
        map_sum id robot_description_params (fst (gazebo_launch_generate_launch_description w))
          = Inr [PStr (universal_newlines decoded)])
    \<and> (CR \<notin> set decoded \<longrightarrow> universal_newlines decoded = decoded)"
proof (intro conjI impI)
  show "map_sum id robot_description_params (fst (rviz2_launch_generate_launch_description w))
      = Inr [PStr (universal_newlines decoded)]"
    by (simp add: rviz2_launch_run [OF assms] robot_description_params_def)
next
  assume "share_dirs w ''gazebo_ros'' \<noteq> None"
  then obtain pkg_gazebo where g: "share_dirs w ''gazebo_ros'' = Some pkg_gazebo"
    by blast
  show "map_sum id robot_description_params (fst (gazebo_launch_generate_launch_description w))
      = Inr [PStr (universal_newlines decoded)]"
    by (simp add: gazebo_launch_run [OF g assms] robot_description_params_def)
next
  assume "CR \<notin> set decoded"
  then show "universal_newlines decoded = decoded"
    by (rule universal_newlines_no_CR)
qed

theorem robot_description_is_text_read_witness:
  "share_dirs installed ''uwrobot_description'' = Some ''/ws/share/uwrobot_description''
   \<and> files installed (os_path_join ''/ws/share/uwrobot_description'' [''urdf'', ''uwrobot.urdf''])
       = Some urdf_lf
   \<and> codec installed urdf_lf = Some urdf_lf
   \<and> share_dirs installed ''gazebo_ros'' \<noteq> None
   \<and> CR \<notin> set urdf_lf
   \<and> map_sum id robot_description_params (fst (rviz2_launch_generate_launch_description installed))
       = Inr [PStr urdf_lf]
   \<and> map_sum id robot_description_params (fst (gazebo_launch_generate_launch_description installed))
       = Inr [PStr urdf_lf]"
proof -
  have cr: "CR \<notin> set urdf_lf"
    by (simp add: urdf_lf_def CR_def LF_def)
  have gz: "share_dirs installed ''gazebo_ros'' \<noteq> None"
    by (simp add: installed_share_gazebo)
  show ?thesis
    using robot_description_is_text_read [OF installed_share_model installed_urdf_file
        installed_urdf_text] cr gz
      installed_share_model installed_urdf_file installed_urdf_text
    by simp
qed

section \<open>Failure\<close>

lemmas launch_defs =
  gazebo_launch_generate_launch_description_def rviz2_launch_generate_launch_description_def
  bind_io_def return_io_def get_package_share_directory_def open_read_def Let_def

lemma rviz2_launch_missing:
  assumes "share_dirs w ''uwrobot_description'' = Some pkg_share"
    and "files w (os_path_join pkg_share [''urdf'', ''uwrobot.urdf'']) = None"
  shows "fst (rviz2_launch_generate_launch_description w)
    = Inl (FileNotFoundError (os_path_join pkg_share [''urdf'', ''uwrobot.urdf'']))"
  using assms by (simp add: launch_defs)

lemma gazebo_launch_missing:
  assumes "share_dirs w ''uwrobot_description'' = Some pkg_model"
    and "files w (os_path_join pkg_model [''urdf'', ''uwrobot.urdf'']) = None"
  shows "fst (gazebo_launch_generate_launch_description w)
    = Inl (case share_dirs w ''gazebo_ros'' of
             None \<Rightarrow> PackageNotFoundError ''gazebo_ros''
           | Some pkg_gazebo \<Rightarrow>
               FileNotFoundError (os_path_join pkg_model [''urdf'', ''uwrobot.urdf'']))"
  using assms by (simp add: launch_defs split: option.splits)

lemma call_launcher_error:
  assumes "fst (generate_launch_description l (environment p)) = Inl e"
  shows "fst (call_launcher l p) = Inl e \<and> heap (snd (call_launcher l p)) = heap p"
  using assms
  by (cases "generate_launch_description l (environment p)") (simp add: call_launcher_def)

lemma no_urdf_share_model:
  "share_dirs installed_no_urdf ''uwrobot_description'' = Some ''/ws/share/uwrobot_description''"
  by (simp add: installed_no_urdf_def installed_def)

lemma no_urdf_share_gazebo:
  "share_dirs installed_no_urdf ''gazebo_ros'' = Some ''/opt/ros/share/gazebo_ros''"
  by (simp add: installed_no_urdf_def installed_def)

lemma no_urdf_file:
  "files installed_no_urdf
     (os_path_join ''/ws/share/uwrobot_description'' [''urdf'', ''uwrobot.urdf'']) = None"
  by (simp add: installed_no_urdf_def)

text \<open>
  C4: when the package resolves and no file is at the URDF path, both functions raise
  and return no launch description: \<open>rviz2_launch.py\<close> fails with the error of \<open>open\<close>,
  \<open>gazebo_launch.py\<close> with the same error, or earlier with the error of the resolver
  when \<open>gazebo_ros\<close> is not installed. The process that called gets the error and no
  launch description object has been created.
\<close>

theorem missing_urdf_raises:
  assumes "share_dirs (environment p) ''uwrobot_description'' = Some pkg_share"
    and "files (environment p) (os_path_join pkg_share [''urdf'', ''uwrobot.urdf'']) = None"
  shows "fst (rviz2_launch_generate_launch_description (environment p))
      = Inl (FileNotFoundError (os_path_join pkg_share [''urdf'', ''uwrobot.urdf'']))
    \<and> fst (gazebo_launch_generate_launch_description (environment p))
      = Inl (case share_dirs (environment p) ''gazebo_ros'' of
               None \<Rightarrow> PackageNotFoundError ''gazebo_ros''
             | Some pkg_gazebo \<Rightarrow>
                 FileNotFoundError (os_path_join pkg_share [''urdf'', ''uwrobot.urdf'']))
    \<and> isl (fst (call_launcher l p))
    \<and> heap (snd (call_launcher l p)) = heap p"
proof -
  note r = rviz2_launch_missing [OF assms]
  note g = gazebo_launch_missing [OF assms]
  have "\<exists>e. fst (generate_launch_description l (environment p)) = Inl e"
    using r g by (cases l) simp_all
  then obtain e where "fst (generate_launch_description l (environment p)) = Inl e" ..
  from call_launcher_error [OF this] r g show ?thesis by simp
qed

theorem missing_urdf_raises_witness:
  "share_dirs (environment \<lparr>environment = installed_no_urdf, heap = []\<rparr>) ''uwrobot_description''
     = Some ''/ws/share/uwrobot_description''
   \<and> files (environment \<lparr>environment = installed_no_urdf, heap = []\<rparr>)
       (os_path_join ''/ws/share/uwrobot_description'' [''urdf'', ''uwrobot.urdf'']) = None
   \<and> fst (rviz2_launch_generate_launch_description installed_no_urdf)
       = Inl (FileNotFoundError ''/ws/share/uwrobot_description/urdf/uwrobot.urdf'')
   \<and> fst (gazebo_launch_generate_launch_description installed_no_urdf)
       = Inl (FileNotFoundError ''/ws/share/uwrobot_description/urdf/uwrobot.urdf'')
   \<and> isl (fst (call_launcher Gazebo_launch \<lparr>environment = installed_no_urdf, heap = []\<rparr>))
   \<and> heap (snd (call_launcher Gazebo_launch \<lparr>environment = installed_no_urdf, heap = []\<rparr>)) = []"
  using missing_urdf_raises [of "\<lparr>environment = installed_no_urdf, heap = []\<rparr>"
      "''/ws/share/uwrobot_description''" Gazebo_launch]
    no_urdf_share_model no_urdf_file no_urdf_share_gazebo
  by (simp add: installed_urdf_path)

section \<open>The world file and the controller spawners\<close>

text \<open>
  C5: in the list that \<open>gazebo_launch.py\<close> returns, the \<open>world\<close> launch argument is
  given once, by the second action, the include of the Gazebo launch file, and its value
  is the share directory of \<open>uwrobot_description\<close> joined with \<open>world\<close> and
  \<open>empty.world\<close>; for a share directory that is not empty and does not end in a
  separator that is the directory followed by \<open>/world/empty.world\<close>.
\<close>

theorem gazebo_world_argument:
  assumes "fst (gazebo_launch_generate_launch_description w) = Inr ld"
    and "share_dirs w ''uwrobot_description'' = Some pkg_model"
  shows "world_arguments ld = [os_path_join pkg_model [''world'', ''empty.world'']]
    \<and> map world_argument_of (entities ld)
        = [[], [os_path_join pkg_model [''world'', ''empty.world'']], [], [], [], []]
    \<and> map action_kind (take 2 (entities ld))
        = [''robot_state_publisher'', ''IncludeLaunchDescription'']
    \<and> (pkg_model \<noteq> [] \<and> last pkg_model \<noteq> CHR ''/'' \<longrightarrow>
        os_path_join pkg_model [''world'', ''empty.world''] = pkg_model @ ''/world/empty.world'')"
proof -
  from assms(1) obtain pkg_gazebo m raw decoded where h:
    "share_dirs w ''gazebo_ros'' = Some pkg_gazebo"
    "share_dirs w ''uwrobot_description'' = Some m"
    "files w (os_path_join m [''urdf'', ''uwrobot.urdf'']) = Some raw"
    "codec w raw = Some decoded"
    by (rule gazebo_launch_success)
  from h(2) assms(2) have m: "m = pkg_model" by simp
  from assms(1) gazebo_launch_run [OF h] m
  have "world_arguments ld = [os_path_join pkg_model [''world'', ''empty.world'']]"
    and "map world_argument_of (entities ld)
        = [[], [os_path_join pkg_model [''world'', ''empty.world'']], [], [], [], []]"
    and "map action_kind (take 2 (entities ld))
        = [''robot_state_publisher'', ''IncludeLaunchDescription'']"
    by (auto simp add: world_arguments_def)
  then show ?thesis
    using os_path_join_plain by blast
qed

lemma installed_gazebo_returns:
  "\<exists>ld. fst (gazebo_launch_generate_launch_description installed) = Inr ld"
  by (simp add: gazebo_launch_run [OF installed_share_gazebo installed_share_model
        installed_urdf_file installed_urdf_text])

lemma installed_rviz2_returns:
  "\<exists>ld. fst (rviz2_launch_generate_launch_description installed) = Inr ld"
  by (simp add: rviz2_launch_run [OF installed_share_model installed_urdf_file
        installed_urdf_text])

theorem gazebo_world_argument_witness:
  "share_dirs installed ''uwrobot_description'' = Some ''/ws/share/uwrobot_description''
   \<and> map_sum id world_arguments (fst (gazebo_launch_generate_launch_description installed))
      = Inr [''/ws/share/uwrobot_description/world/empty.world'']"
proof -
  obtain ld where ld: "fst (gazebo_launch_generate_launch_description installed) = Inr ld"
    using installed_gazebo_returns by blast
  have "''/ws/share/uwrobot_description'' \<noteq> []
      \<and> last ''/ws/share/uwrobot_description'' \<noteq> CHR ''/''"
    by simp
  with gazebo_world_argument [OF ld installed_share_model]
  have "world_arguments ld = [''/ws/share/uwrobot_description/world/empty.world'']"
    by simp
  with ld installed_share_model show ?thesis by simp
qed

text \<open>
  C6: the list that \<open>gazebo_launch.py\<close> returns has six actions and ends with three
  \<open>spawner\<close> nodes of \<open>controller_manager\<close>, each with one argument:
  \<open>joint_state_broadcaster\<close>, \<open>velocity_controller\<close>, \<open>steering_controller\<close>, in this
  order. They are the only spawners of the list.
\<close>

theorem gazebo_launch_ends_with_spawners:
  assumes "fst (gazebo_launch_generate_launch_description w) = Inr ld"
  shows "drop 3 (entities ld) =
      [Node \<lparr>package = ''controller_manager'', executable = ''spawner'',
             arguments = Some [''joint_state_broadcaster''],
             parameters = None, node_output = Some ''screen''\<rparr>,
       Node \<lparr>package = ''controller_manager'', executable = ''spawner'',
             arguments = Some [''velocity_controller''],
             parameters = None, node_output = Some ''screen''\<rparr>,
       Node \<lparr>package = ''controller_manager'', executable = ''spawner'',
             arguments = Some [''steering_controller''],
             parameters = None, node_output = Some ''screen''\<rparr>]
    \<and> length (entities ld) = 6
    \<and> filter is_spawner (entities ld) = drop 3 (entities ld)"
proof -
  from assms obtain pkg_gazebo pkg_model raw decoded where h:
    "share_dirs w ''gazebo_ros'' = Some pkg_gazebo"
    "share_dirs w ''uwrobot_description'' = Some pkg_model"
    "files w (os_path_join pkg_model [''urdf'', ''uwrobot.urdf'']) = Some raw"
    "codec w raw = Some decoded"
    by (rule gazebo_launch_success)
  from assms gazebo_launch_run [OF h] show ?thesis
    by auto
qed

theorem gazebo_launch_ends_with_spawners_witness:
  "map_sum id (map action_kind \<circ> drop 3 \<circ> entities)
      (fst (gazebo_launch_generate_launch_description installed))
    = Inr [''spawner'', ''spawner'', ''spawner'']
   \<and> map_sum id (length \<circ> filter is_spawner \<circ> entities)
      (fst (gazebo_launch_generate_launch_description installed))
    = Inr 3
   \<and> map_sum id (length \<circ> entities)
      (fst (gazebo_launch_generate_launch_description installed))
    = Inr 6"
proof -
  obtain ld where ld: "fst (gazebo_launch_generate_launch_description installed) = Inr ld"
    using installed_gazebo_returns by blast
  note spawners = gazebo_launch_ends_with_spawners [OF ld]
  from spawners have k: "map action_kind (drop 3 (entities ld)) = [''spawner'', ''spawner'', ''spawner'']"
    by simp
  from spawners have f: "length (filter is_spawner (entities ld)) = 3"
    by simp
  from spawners have n: "length (entities ld) = 6"
    by simp
  show ?thesis
    by (simp add: ld k f n)
qed

section \<open>Effects\<close>

lemma gazebo_launch_effect:
  "snd (gazebo_launch_generate_launch_description w) =
     w\<lparr>open_calls := open_calls w @
        (case share_dirs w ''gazebo_ros'' of
           None \<Rightarrow> []
         | Some pkg_gazebo \<Rightarrow>
             (case share_dirs w ''uwrobot_description'' of
                None \<Rightarrow> []
              | Some pkg_model \<Rightarrow> [os_path_join pkg_model [''urdf'', ''uwrobot.urdf'']]))\<rparr>"
  by (simp add: launch_defs split: option.splits)

lemma rviz2_launch_effect:
  "snd (rviz2_launch_generate_launch_description w) =
     w\<lparr>open_calls := open_calls w @
        (case share_dirs w ''uwrobot_description'' of
           None \<Rightarrow> []
         | Some pkg_share \<Rightarrow> [os_path_join pkg_share [''urdf'', ''uwrobot.urdf'']])\<rparr>"
  by (simp add: launch_defs split: option.splits)

lemma gazebo_launch_reads:
  assumes "share_dirs w' = share_dirs w" and "files w' = files w" and "codec w' = codec w"
  shows "fst (gazebo_launch_generate_launch_description w')
    = fst (gazebo_launch_generate_launch_description w)"
  using assms by (simp add: launch_defs split: option.splits)

lemma rviz2_launch_reads:
  assumes "share_dirs w' = share_dirs w" and "files w' = files w" and "codec w' = codec w"
  shows "fst (rviz2_launch_generate_launch_description w')
    = fst (rviz2_launch_generate_launch_description w)"
  using assms by (simp add: launch_defs split: option.splits)

text \<open>
  C7: \<open>generate_launch_description\<close> of \<open>gazebo_launch.py\<close> has no parameter, and its
  result is determined by the package index, the files and the codec alone. It leaves
  the environment as it found it except for the calls of \<open>open\<close>: none when a package
  does not resolve, otherwise exactly one, on the URDF path. When it returns a launch
  description it has opened exactly that one file.
\<close>

theorem gazebo_launch_frame:
  "snd (gazebo_launch_generate_launch_description w) =
     w\<lparr>open_calls := open_calls w @
        (case share_dirs w ''gazebo_ros'' of
           None \<Rightarrow> []
         | Some pkg_gazebo \<Rightarrow>
             (case share_dirs w ''uwrobot_description'' of
                None \<Rightarrow> []
              | Some pkg_model \<Rightarrow> [os_path_join pkg_model [''urdf'', ''uwrobot.urdf'']]))\<rparr>
   \<and> (share_dirs w' = share_dirs w \<and> files w' = files w \<and> codec w' = codec w \<longrightarrow>
        fst (gazebo_launch_generate_launch_description w')
          = fst (gazebo_launch_generate_launch_description w))
   \<and> (\<not> isl (fst (gazebo_launch_generate_launch_description w)) \<longrightarrow>
        (\<exists>pkg_model. share_dirs w ''uwrobot_description'' = Some pkg_model
           \<and> open_calls (snd (gazebo_launch_generate_launch_description w))
             = open_calls w @ [os_path_join pkg_model [''urdf'', ''uwrobot.urdf'']]))"
proof (intro conjI impI)
  show "snd (gazebo_launch_generate_launch_description w) =
     w\<lparr>open_calls := open_calls w @
        (case share_dirs w ''gazebo_ros'' of
           None \<Rightarrow> []
         | Some pkg_gazebo \<Rightarrow>
             (case share_dirs w ''uwrobot_description'' of
                None \<Rightarrow> []
              | Some pkg_model \<Rightarrow> [os_path_join pkg_model [''urdf'', ''uwrobot.urdf'']]))\<rparr>"
    by (rule gazebo_launch_effect)
next
  assume "share_dirs w' = share_dirs w \<and> files w' = files w \<and> codec w' = codec w"
  then show "fst (gazebo_launch_generate_launch_description w')
      = fst (gazebo_launch_generate_launch_description w)"
    using gazebo_launch_reads [of w' w] by blast
next
  assume "\<not> isl (fst (gazebo_launch_generate_launch_description w))"
  then obtain ld where "fst (gazebo_launch_generate_launch_description w) = Inr ld"
    by (cases "fst (gazebo_launch_generate_launch_description w)") simp_all
  then obtain pkg_gazebo pkg_model raw decoded where h:
    "share_dirs w ''gazebo_ros'' = Some pkg_gazebo"
    "share_dirs w ''uwrobot_description'' = Some pkg_model"
    "files w (os_path_join pkg_model [''urdf'', ''uwrobot.urdf'']) = Some raw"
    "codec w raw = Some decoded"
    by (rule gazebo_launch_success)
  have "open_calls (snd (gazebo_launch_generate_launch_description w))
      = open_calls w @ [os_path_join pkg_model [''urdf'', ''uwrobot.urdf'']]"
    by (simp add: gazebo_launch_effect h)
  with h(2) show "\<exists>pkg_model. share_dirs w ''uwrobot_description'' = Some pkg_model
      \<and> open_calls (snd (gazebo_launch_generate_launch_description w))
        = open_calls w @ [os_path_join pkg_model [''urdf'', ''uwrobot.urdf'']]"
    by blast
qed

lemma installed_gazebo_not_error:
  "\<not> isl (fst (gazebo_launch_generate_launch_description installed))"
  using installed_gazebo_returns by auto

theorem gazebo_launch_frame_witness:
  "share_dirs (installed\<lparr>launch_args := [(''model'', ''/tmp/other.urdf'')],
                         open_calls := [''/etc/hostname'']\<rparr>) = share_dirs installed
   \<and> files (installed\<lparr>launch_args := [(''model'', ''/tmp/other.urdf'')],
                      open_calls := [''/etc/hostname'']\<rparr>) = files installed
   \<and> codec (installed\<lparr>launch_args := [(''model'', ''/tmp/other.urdf'')],
                      open_calls := [''/etc/hostname'']\<rparr>) = codec installed
   \<and> \<not> isl (fst (gazebo_launch_generate_launch_description installed))
   \<and> snd (gazebo_launch_generate_launch_description installed)
       = installed\<lparr>open_calls := [''/ws/share/uwrobot_description/urdf/uwrobot.urdf'']\<rparr>
   \<and> fst (gazebo_launch_generate_launch_description
        (installed\<lparr>launch_args := [(''model'', ''/tmp/other.urdf'')],
                   open_calls := [''/etc/hostname'']\<rparr>))
       = fst (gazebo_launch_generate_launch_description installed)"
proof -
  have o: "open_calls installed = []"
    by (simp add: installed_def)
  show ?thesis
    using gazebo_launch_frame [of installed
        "installed\<lparr>launch_args := [(''model'', ''/tmp/other.urdf'')],
                   open_calls := [''/etc/hostname'']\<rparr>"]
      installed_gazebo_not_error
    by (simp add: installed_share_gazebo installed_share_model installed_urdf_path o)
qed

section \<open>Objects\<close>

lemma gazebo_launch_kinds:
  assumes "fst (gazebo_launch_generate_launch_description w) = Inr ld"
  shows "map action_kind (entities ld)
    = [''robot_state_publisher'', ''IncludeLaunchDescription'', ''spawn_entity.py'',
       ''spawner'', ''spawner'', ''spawner'']"
proof -
  from assms obtain pkg_gazebo pkg_model raw decoded where h:
    "share_dirs w ''gazebo_ros'' = Some pkg_gazebo"
    "share_dirs w ''uwrobot_description'' = Some pkg_model"
    "files w (os_path_join pkg_model [''urdf'', ''uwrobot.urdf'']) = Some raw"
    "codec w raw = Some decoded"
    by (rule gazebo_launch_success)
  from assms gazebo_launch_run [OF h] show ?thesis
    by auto
qed

lemma rviz2_launch_kinds:
  assumes "fst (rviz2_launch_generate_launch_description w) = Inr ld"
  shows "map action_kind (entities ld)
    = [''DeclareLaunchArgument'', ''joint_state_publisher'', ''robot_state_publisher'',
       ''rviz2'']"
proof -
  from assms obtain pkg_share raw decoded where h:
    "share_dirs w ''uwrobot_description'' = Some pkg_share"
    "files w (os_path_join pkg_share [''urdf'', ''uwrobot.urdf'']) = Some raw"
    "codec w raw = Some decoded"
    by (rule rviz2_launch_success)
  from assms rviz2_launch_run [OF h] show ?thesis
    by auto
qed

lemmas obj_defs =
  gazebo_launch_generate_launch_description_obj_def
  rviz2_launch_generate_launch_description_obj_def
  bind_py_def lift_io_def new_object_def
  get_package_share_directory_def open_read_def Let_def

lemma set_object_is_logged:
  "mutations (snd (set_object a v s)) = mutations s @ [a]"
  by (simp add: set_object_def)

lemma gazebo_obj_mutations:
  "mutations (snd (gazebo_launch_generate_launch_description_obj s)) = mutations s"
  by (simp add: obj_defs split: option.splits)

lemma rviz2_obj_mutations:
  "mutations (snd (rviz2_launch_generate_launch_description_obj s)) = mutations s"
  by (simp add: obj_defs split: option.splits)

lemma gazebo_obj_objects:
  "\<exists>new. objects (snd (gazebo_launch_generate_launch_description_obj s)) = objects s @ new"
  by (simp add: obj_defs split: option.splits)

lemma rviz2_obj_objects:
  "\<exists>new. objects (snd (rviz2_launch_generate_launch_description_obj s)) = objects s @ new"
  by (simp add: obj_defs split: option.splits)

lemma generate_obj_frame:
  "(\<exists>new. objects (snd (generate_launch_description_obj l s)) = objects s @ new)
   \<and> mutations (snd (generate_launch_description_obj l s)) = mutations s"
  by (cases l)
    (simp_all add: gazebo_obj_objects rviz2_obj_objects gazebo_obj_mutations rviz2_obj_mutations)

lemma generate_objs_frame:
  "(\<exists>new. objects (generate_launch_descriptions_obj ls s) = objects s @ new)
   \<and> mutations (generate_launch_descriptions_obj ls s) = mutations s"
proof (induction ls arbitrary: s)
  case Nil
  show ?case by simp
next
  case (Cons l ls)
  obtain new1 where n1: "objects (snd (generate_launch_description_obj l s)) = objects s @ new1"
    and m1: "mutations (snd (generate_launch_description_obj l s)) = mutations s"
    using generate_obj_frame by blast
  obtain new2 where
    n2: "objects (generate_launch_descriptions_obj ls (snd (generate_launch_description_obj l s)))
      = objects (snd (generate_launch_description_obj l s)) @ new2"
    and m2: "mutations (generate_launch_descriptions_obj ls (snd (generate_launch_description_obj l s)))
      = mutations (snd (generate_launch_description_obj l s))"
    using Cons.IH by blast
  from n1 n2 m1 m2 show ?case by simp
qed

lemma object_at_append:
  "object_at os a = Some v \<Longrightarrow> object_at (os @ new) a = Some v"
  by (auto simp add: object_at_def nth_append split: if_splits)

lemma entity_at_append:
  "entity_at os a = Some e \<Longrightarrow> entity_at (os @ new) a = Some e"
  by (auto simp add: entity_at_def object_at_append split: option.splits object.splits)

lemma those_entities_append:
  "those (map (entity_at os) refs) = Some es
   \<Longrightarrow> those (map (entity_at (os @ new)) refs) = Some es"
proof (induction refs arbitrary: es)
  case Nil
  then show ?case by simp
next
  case (Cons a refs)
  then show ?case
    by (auto simp add: entity_at_append split: option.splits)
qed

lemma read_description_append:
  assumes "read_description os r = Some ld"
  shows "read_description (os @ new) r = Some ld"
proof -
  from assms obtain l refs es where
    r: "object_at os r = Some (OLaunchDescription l)"
    and l: "object_at os l = Some (OList refs)"
    and es: "those (map (entity_at os) refs) = Some es"
    and ld: "ld = LaunchDescription es"
    by (auto simp add: read_description_def split: option.splits object.splits)
  show ?thesis
    by (simp add: read_description_def object_at_append [OF r] object_at_append [OF l]
        those_entities_append [OF es] ld)
qed

lemma gazebo_obj_run:
  assumes "share_dirs (outside s) ''gazebo_ros'' = Some pkg_gazebo"
    and "share_dirs (outside s) ''uwrobot_description'' = Some pkg_model"
    and "files (outside s) (os_path_join pkg_model [''urdf'', ''uwrobot.urdf'']) = Some raw"
    and "codec (outside s) raw = Some decoded"
    and "fst (gazebo_launch_generate_launch_description (outside s)) = Inr ld"
  shows "fst (gazebo_launch_generate_launch_description_obj s) = Inr (length (objects s) + 7)
    \<and> objects (snd (gazebo_launch_generate_launch_description_obj s)) =
        objects s @ map OEntity (entities ld) @
          [OList [length (objects s), length (objects s) + 1, length (objects s) + 2,
                  length (objects s) + 3, length (objects s) + 4, length (objects s) + 5],
           OLaunchDescription (length (objects s) + 6)]
    \<and> length (entities ld) = 6"
  using assms(5) gazebo_launch_run [OF assms(1-4)] assms(1-4)
  by (auto simp add: obj_defs)

lemma rviz2_obj_run:
  assumes "share_dirs (outside s) ''uwrobot_description'' = Some pkg_share"
    and "files (outside s) (os_path_join pkg_share [''urdf'', ''uwrobot.urdf'']) = Some raw"
    and "codec (outside s) raw = Some decoded"
    and "fst (rviz2_launch_generate_launch_description (outside s)) = Inr ld"
  shows "fst (rviz2_launch_generate_launch_description_obj s) = Inr (length (objects s) + 5)
    \<and> objects (snd (rviz2_launch_generate_launch_description_obj s)) =
        objects s @
          [OEntity (entities ld ! 0), OEntity (entities ld ! 2), OEntity (entities ld ! 1),
           OEntity (entities ld ! 3),
           OList [length (objects s), length (objects s) + 2, length (objects s) + 1,
                  length (objects s) + 3],
           OLaunchDescription (length (objects s) + 4)]
    \<and> length (entities ld) = 4"
  using assms(4) rviz2_launch_run [OF assms(1-3)] assms(1-3)
  by (auto simp add: obj_defs)

lemma gazebo_obj_success:
  assumes "fst (gazebo_launch_generate_launch_description_obj s) = Inr r"
  obtains pkg_gazebo pkg_model raw decoded where
    "share_dirs (outside s) ''gazebo_ros'' = Some pkg_gazebo"
    "share_dirs (outside s) ''uwrobot_description'' = Some pkg_model"
    "files (outside s) (os_path_join pkg_model [''urdf'', ''uwrobot.urdf'']) = Some raw"
    "codec (outside s) raw = Some decoded"
  using assms by (auto simp add: obj_defs split: option.splits)

lemma rviz2_obj_success:
  assumes "fst (rviz2_launch_generate_launch_description_obj s) = Inr r"
  obtains pkg_share raw decoded where
    "share_dirs (outside s) ''uwrobot_description'' = Some pkg_share"
    "files (outside s) (os_path_join pkg_share [''urdf'', ''uwrobot.urdf'']) = Some raw"
    "codec (outside s) raw = Some decoded"
  using assms by (auto simp add: obj_defs split: option.splits)

lemma read_six:
  "read_description
     (os @ [OEntity a, OEntity b, OEntity c, OEntity d, OEntity e, OEntity f,
            OList [length os, length os + 1, length os + 2, length os + 3, length os + 4,
                   length os + 5],
            OLaunchDescription (length os + 6)])
     (length os + 7)
   = Some (LaunchDescription [a, b, c, d, e, f])"
  by (simp add: read_description_def object_at_def entity_at_def nth_append)

lemma read_four:
  "read_description
     (os @ [OEntity a, OEntity c, OEntity b, OEntity d,
            OList [length os, length os + 2, length os + 1, length os + 3],
            OLaunchDescription (length os + 4)])
     (length os + 5)
   = Some (LaunchDescription [a, b, c, d])"
  by (simp add: read_description_def object_at_def entity_at_def nth_append)

lemma six_entities:
  assumes "length (entities ld) = 6"
  obtains a b c d e f where "ld = LaunchDescription [a, b, c, d, e, f]"
proof -
  from assms obtain a b c d e f where "entities ld = [a, b, c, d, e, f]"
    by (auto simp add: eval_nat_numeral length_Suc_conv)
  then have "ld = LaunchDescription [a, b, c, d, e, f]"
    by (cases ld) simp
  then show ?thesis by (rule that)
qed

lemma four_entities:
  assumes "length (entities ld) = 4"
  obtains a b c d where "ld = LaunchDescription [a, b, c, d]"
proof -
  from assms obtain a b c d where "entities ld = [a, b, c, d]"
    by (auto simp add: eval_nat_numeral length_Suc_conv)
  then have "ld = LaunchDescription [a, b, c, d]"
    by (cases ld) simp
  then show ?thesis by (rule that)
qed

lemma gazebo_obj_reads:
  assumes "fst (gazebo_launch_generate_launch_description_obj s) = Inr r"
  shows "\<exists>ld. fst (gazebo_launch_generate_launch_description (outside s)) = Inr ld
    \<and> read_description (objects (snd (gazebo_launch_generate_launch_description_obj s))) r
        = Some ld"
proof -
  from assms obtain pkg_gazebo pkg_model raw decoded where h:
    "share_dirs (outside s) ''gazebo_ros'' = Some pkg_gazebo"
    "share_dirs (outside s) ''uwrobot_description'' = Some pkg_model"
    "files (outside s) (os_path_join pkg_model [''urdf'', ''uwrobot.urdf'']) = Some raw"
    "codec (outside s) raw = Some decoded"
    by (rule gazebo_obj_success)
  obtain ld where ld: "fst (gazebo_launch_generate_launch_description (outside s)) = Inr ld"
    by (simp add: gazebo_launch_run [OF h])
  note run = gazebo_obj_run [OF h ld]
  from run have n: "length (entities ld) = 6" by blast
  then obtain a b c d e f where es: "ld = LaunchDescription [a, b, c, d, e, f]"
    by (rule six_entities)
  from run assms have r: "r = length (objects s) + 7" by simp
  from run have "objects (snd (gazebo_launch_generate_launch_description_obj s)) =
      objects s @ [OEntity a, OEntity b, OEntity c, OEntity d, OEntity e, OEntity f,
        OList [length (objects s), length (objects s) + 1, length (objects s) + 2,
               length (objects s) + 3, length (objects s) + 4, length (objects s) + 5],
        OLaunchDescription (length (objects s) + 6)]"
    by (simp add: es)
  then have "read_description (objects (snd (gazebo_launch_generate_launch_description_obj s))) r
      = Some ld"
    by (simp only: r es read_six)
  with ld show ?thesis by blast
qed

lemma rviz2_obj_reads:
  assumes "fst (rviz2_launch_generate_launch_description_obj s) = Inr r"
  shows "\<exists>ld. fst (rviz2_launch_generate_launch_description (outside s)) = Inr ld
    \<and> read_description (objects (snd (rviz2_launch_generate_launch_description_obj s))) r
        = Some ld"
proof -
  from assms obtain pkg_share raw decoded where h:
    "share_dirs (outside s) ''uwrobot_description'' = Some pkg_share"
    "files (outside s) (os_path_join pkg_share [''urdf'', ''uwrobot.urdf'']) = Some raw"
    "codec (outside s) raw = Some decoded"
    by (rule rviz2_obj_success)
  obtain ld where ld: "fst (rviz2_launch_generate_launch_description (outside s)) = Inr ld"
    by (simp add: rviz2_launch_run [OF h])
  note run = rviz2_obj_run [OF h ld]
  from run have n: "length (entities ld) = 4" by blast
  then obtain a b c d where es: "ld = LaunchDescription [a, b, c, d]"
    by (rule four_entities)
  from run assms have r: "r = length (objects s) + 5" by simp
  from run have "objects (snd (rviz2_launch_generate_launch_description_obj s)) =
      objects s @ [OEntity a, OEntity c, OEntity b, OEntity d,
        OList [length (objects s), length (objects s) + 2, length (objects s) + 1,
               length (objects s) + 3],
        OLaunchDescription (length (objects s) + 4)]"
    by (simp add: es)
  then have "read_description (objects (snd (rviz2_launch_generate_launch_description_obj s))) r
      = Some ld"
    by (simp only: r es read_four)
  with ld show ?thesis by blast
qed

lemma generate_obj_reads:
  assumes "fst (generate_launch_description_obj l s) = Inr r"
  shows "\<exists>ld. fst (generate_launch_description l (outside s)) = Inr ld
    \<and> read_description (objects (snd (generate_launch_description_obj l s))) r = Some ld"
  using assms by (cases l) (simp_all add: gazebo_obj_reads rviz2_obj_reads)

text \<open>
  C8: the launch description that a call of \<open>generate_launch_description\<close> returns is
  read from the store as the value the function computes, with its actions in the order
  in which the source lists them. The call creates objects and does nothing else to the
  store: the objects that were there are as they were and no in-place update is carried
  out. The same holds for every call of the two functions that follows, so the returned
  description reads the same after any number of them.
\<close>

theorem launch_description_never_mutated:
  assumes "fst (generate_launch_description_obj l s) = Inr r"
  shows "(\<exists>ld. fst (generate_launch_description l (outside s)) = Inr ld
        \<and> read_description (objects (snd (generate_launch_description_obj l s))) r = Some ld
        \<and> read_description
            (objects (generate_launch_descriptions_obj ls
               (snd (generate_launch_description_obj l s)))) r = Some ld
        \<and> map action_kind (entities ld)
           = (case l of
                Gazebo_launch \<Rightarrow>
                  [''robot_state_publisher'', ''IncludeLaunchDescription'', ''spawn_entity.py'',
                   ''spawner'', ''spawner'', ''spawner'']
              | Rviz2_launch \<Rightarrow>
                  [''DeclareLaunchArgument'', ''joint_state_publisher'',
                   ''robot_state_publisher'', ''rviz2'']))
    \<and> take (length (objects s)) (objects (snd (generate_launch_description_obj l s)))
        = objects s
    \<and> mutations (snd (generate_launch_description_obj l s)) = mutations s
    \<and> take (length (objects (snd (generate_launch_description_obj l s))))
        (objects (generate_launch_descriptions_obj ls
           (snd (generate_launch_description_obj l s))))
        = objects (snd (generate_launch_description_obj l s))
    \<and> mutations (generate_launch_descriptions_obj ls
        (snd (generate_launch_description_obj l s))) = mutations s"
proof -
  let ?s' = "snd (generate_launch_description_obj l s)"
  let ?s'' = "generate_launch_descriptions_obj ls ?s'"
  from generate_obj_reads [OF assms] obtain ld where
    ld: "fst (generate_launch_description l (outside s)) = Inr ld"
    and rd: "read_description (objects ?s') r = Some ld"
    by blast
  obtain new1 where n1: "objects ?s' = objects s @ new1"
    and m1: "mutations ?s' = mutations s"
    using generate_obj_frame by blast
  obtain new2 where n2: "objects ?s'' = objects ?s' @ new2"
    and m2: "mutations ?s'' = mutations ?s'"
    using generate_objs_frame by blast
  have later: "read_description (objects ?s'') r = Some ld"
    unfolding n2 using rd by (rule read_description_append)
  have kinds: "map action_kind (entities ld)
       = (case l of
            Gazebo_launch \<Rightarrow>
              [''robot_state_publisher'', ''IncludeLaunchDescription'', ''spawn_entity.py'',
               ''spawner'', ''spawner'', ''spawner'']
          | Rviz2_launch \<Rightarrow>
              [''DeclareLaunchArgument'', ''joint_state_publisher'',
               ''robot_state_publisher'', ''rviz2''])"
  proof (cases l)
    case Gazebo_launch
    with ld show ?thesis by (simp add: gazebo_launch_kinds)
  next
    case Rviz2_launch
    with ld show ?thesis by (simp add: rviz2_launch_kinds)
  qed
  have t1: "take (length (objects s)) (objects ?s') = objects s"
    by (simp add: n1)
  have t2: "take (length (objects ?s')) (objects ?s'') = objects ?s'"
    by (simp add: n2)
  have m: "mutations ?s'' = mutations s"
    by (simp add: m1 m2)
  have ex: "\<exists>ld. fst (generate_launch_description l (outside s)) = Inr ld
        \<and> read_description (objects ?s') r = Some ld
        \<and> read_description (objects ?s'') r = Some ld
        \<and> map action_kind (entities ld)
           = (case l of
                Gazebo_launch \<Rightarrow>
                  [''robot_state_publisher'', ''IncludeLaunchDescription'', ''spawn_entity.py'',
                   ''spawner'', ''spawner'', ''spawner'']
              | Rviz2_launch \<Rightarrow>
                  [''DeclareLaunchArgument'', ''joint_state_publisher'',
                   ''robot_state_publisher'', ''rviz2''])"
    by (intro exI [of _ ld] conjI) (fact ld rd later kinds)+
  show ?thesis
    by (intro conjI) (fact ex t1 m1 t2 m)+
qed

lemma booted_outside: "outside booted = installed"
  by (simp add: booted_def)

lemma booted_gazebo: "fst (generate_launch_description_obj Gazebo_launch booted) = Inr 7"
proof -
  obtain ld where ld: "fst (gazebo_launch_generate_launch_description (outside booted)) = Inr ld"
    using installed_gazebo_returns by (auto simp add: booted_outside)
  have o: "objects booted = []"
    by (simp add: booted_def)
  from gazebo_obj_run [of booted, unfolded booted_outside,
      OF installed_share_gazebo installed_share_model installed_urdf_file installed_urdf_text
        ld [unfolded booted_outside]]
  show ?thesis
    by (simp add: o)
qed

lemma booted_rviz2: "fst (generate_launch_description_obj Rviz2_launch booted) = Inr 5"
proof -
  obtain ld where ld: "fst (rviz2_launch_generate_launch_description (outside booted)) = Inr ld"
    using installed_rviz2_returns by (auto simp add: booted_outside)
  have o: "objects booted = []"
    by (simp add: booted_def)
  from rviz2_obj_run [of booted, unfolded booted_outside,
      OF installed_share_model installed_urdf_file installed_urdf_text
        ld [unfolded booted_outside]]
  show ?thesis
    by (simp add: o)
qed

theorem launch_description_never_mutated_witness:
  "fst (generate_launch_description_obj Gazebo_launch booted) = Inr 7
   \<and> map_option (map action_kind \<circ> entities)
       (read_description
          (objects (generate_launch_descriptions_obj [Rviz2_launch, Gazebo_launch]
             (snd (generate_launch_description_obj Gazebo_launch booted)))) 7)
     = Some [''robot_state_publisher'', ''IncludeLaunchDescription'', ''spawn_entity.py'',
             ''spawner'', ''spawner'', ''spawner'']
   \<and> mutations (generate_launch_descriptions_obj [Rviz2_launch, Gazebo_launch]
        (snd (generate_launch_description_obj Gazebo_launch booted))) = []
   \<and> fst (generate_launch_description_obj Rviz2_launch booted) = Inr 5
   \<and> map_option (map action_kind \<circ> entities)
       (read_description
          (objects (generate_launch_descriptions_obj [Gazebo_launch, Rviz2_launch]
             (snd (generate_launch_description_obj Rviz2_launch booted)))) 5)
     = Some [''DeclareLaunchArgument'', ''joint_state_publisher'', ''robot_state_publisher'',
             ''rviz2'']
   \<and> mutations (generate_launch_descriptions_obj [Gazebo_launch, Rviz2_launch]
        (snd (generate_launch_description_obj Rviz2_launch booted))) = []"
proof -
  have m0: "mutations booted = []"
    by (simp add: booted_def)
  note g = launch_description_never_mutated [OF booted_gazebo,
      of "[Rviz2_launch, Gazebo_launch]", unfolded launcher.case m0]
  note v = launch_description_never_mutated [OF booted_rviz2,
      of "[Gazebo_launch, Rviz2_launch]", unfolded launcher.case m0]
  from g [THEN conjunct1] obtain ld1 where c1:
    "fst (generate_launch_description Gazebo_launch (outside booted)) = Inr ld1
     \<and> read_description
          (objects (snd (generate_launch_description_obj Gazebo_launch booted))) 7 = Some ld1
     \<and> read_description
          (objects (generate_launch_descriptions_obj [Rviz2_launch, Gazebo_launch]
             (snd (generate_launch_description_obj Gazebo_launch booted)))) 7 = Some ld1
     \<and> map action_kind (entities ld1)
        = [''robot_state_publisher'', ''IncludeLaunchDescription'', ''spawn_entity.py'',
           ''spawner'', ''spawner'', ''spawner'']" ..
  note r1 = c1 [THEN conjunct2, THEN conjunct2, THEN conjunct1]
  note k1 = c1 [THEN conjunct2, THEN conjunct2, THEN conjunct2]
  from v [THEN conjunct1] obtain ld2 where c2:
    "fst (generate_launch_description Rviz2_launch (outside booted)) = Inr ld2
     \<and> read_description
          (objects (snd (generate_launch_description_obj Rviz2_launch booted))) 5 = Some ld2
     \<and> read_description
          (objects (generate_launch_descriptions_obj [Gazebo_launch, Rviz2_launch]
             (snd (generate_launch_description_obj Rviz2_launch booted)))) 5 = Some ld2
     \<and> map action_kind (entities ld2)
        = [''DeclareLaunchArgument'', ''joint_state_publisher'', ''robot_state_publisher'',
           ''rviz2'']" ..
  note r2 = c2 [THEN conjunct2, THEN conjunct2, THEN conjunct1]
  note k2 = c2 [THEN conjunct2, THEN conjunct2, THEN conjunct2]
  have a1: "map_option (map action_kind \<circ> entities)
       (read_description
          (objects (generate_launch_descriptions_obj [Rviz2_launch, Gazebo_launch]
             (snd (generate_launch_description_obj Gazebo_launch booted)))) 7)
     = Some [''robot_state_publisher'', ''IncludeLaunchDescription'', ''spawn_entity.py'',
             ''spawner'', ''spawner'', ''spawner'']"
    unfolding r1 by (simp add: k1)
  have a2: "map_option (map action_kind \<circ> entities)
       (read_description
          (objects (generate_launch_descriptions_obj [Gazebo_launch, Rviz2_launch]
             (snd (generate_launch_description_obj Rviz2_launch booted)))) 5)
     = Some [''DeclareLaunchArgument'', ''joint_state_publisher'', ''robot_state_publisher'',
             ''rviz2'']"
    unfolding r2 by (simp add: k2)
  note b1 = g [THEN conjunct2, THEN conjunct2, THEN conjunct2, THEN conjunct2]
  note b2 = v [THEN conjunct2, THEN conjunct2, THEN conjunct2, THEN conjunct2]
  show ?thesis
    by (intro conjI) (fact booted_gazebo booted_rviz2 a1 a2 b1 b2)+
qed

section \<open>The launch argument and the two copies of the description\<close>

text \<open>
  C9: whatever value the user supplies for the \<open>model\<close> launch argument,
  \<open>generate_launch_description\<close> of \<open>rviz2_launch.py\<close> returns the same result for the
  same package index, files and codec, and the only file it opens is the default one,
  \<open>urdf/uwrobot.urdf\<close> under the share directory: the argument is declared and never
  read.
\<close>

theorem model_argument_ignored:
  "fst (rviz2_launch_generate_launch_description (w\<lparr>launch_args := (''model'', va) # args\<rparr>))
     = fst (rviz2_launch_generate_launch_description (w\<lparr>launch_args := (''model'', vb) # args\<rparr>))
   \<and> fst (rviz2_launch_generate_launch_description (w\<lparr>launch_args := (''model'', va) # args\<rparr>))
     = fst (rviz2_launch_generate_launch_description w)
   \<and> open_calls (snd (rviz2_launch_generate_launch_description
        (w\<lparr>launch_args := (''model'', va) # args\<rparr>)))
     = open_calls w @
        (case share_dirs w ''uwrobot_description'' of
           None \<Rightarrow> []
         | Some pkg_share \<Rightarrow> [os_path_join pkg_share [''urdf'', ''uwrobot.urdf'']])"
proof (intro conjI)
  show "fst (rviz2_launch_generate_launch_description (w\<lparr>launch_args := (''model'', va) # args\<rparr>))
     = fst (rviz2_launch_generate_launch_description (w\<lparr>launch_args := (''model'', vb) # args\<rparr>))"
    by (rule rviz2_launch_reads) simp_all
  show "fst (rviz2_launch_generate_launch_description (w\<lparr>launch_args := (''model'', va) # args\<rparr>))
     = fst (rviz2_launch_generate_launch_description w)"
    by (rule rviz2_launch_reads) simp_all
  show "open_calls (snd (rviz2_launch_generate_launch_description
        (w\<lparr>launch_args := (''model'', va) # args\<rparr>)))
     = open_calls w @
        (case share_dirs w ''uwrobot_description'' of
           None \<Rightarrow> []
         | Some pkg_share \<Rightarrow> [os_path_join pkg_share [''urdf'', ''uwrobot.urdf'']])"
    by (simp add: rviz2_launch_effect)
qed

theorem model_argument_ignored_witness:
  "map_sum id robot_description_params
     (fst (rviz2_launch_generate_launch_description
        (installed\<lparr>launch_args := [(''model'', ''/tmp/other.urdf'')]\<rparr>)))
     = Inr [PStr urdf_lf]
   \<and> open_calls (snd (rviz2_launch_generate_launch_description
        (installed\<lparr>launch_args := [(''model'', ''/tmp/other.urdf'')]\<rparr>)))
     = [''/ws/share/uwrobot_description/urdf/uwrobot.urdf'']"
proof -
  note ignored = model_argument_ignored [where w = installed
      and va = "''/tmp/other.urdf''" and vb = "''/tmp/third.urdf''" and args = "[]"]
  have r: "fst (rviz2_launch_generate_launch_description
        (installed\<lparr>launch_args := [(''model'', ''/tmp/other.urdf'')]\<rparr>))
      = fst (rviz2_launch_generate_launch_description installed)"
    using ignored by blast
  have o: "open_calls (snd (rviz2_launch_generate_launch_description
        (installed\<lparr>launch_args := [(''model'', ''/tmp/other.urdf'')]\<rparr>)))
      = open_calls installed @
        (case share_dirs installed ''uwrobot_description'' of
           None \<Rightarrow> []
         | Some pkg_share \<Rightarrow> [os_path_join pkg_share [''urdf'', ''uwrobot.urdf'']])"
    using ignored by blast
  have e: "open_calls installed = []"
    by (simp add: installed_def)
  have d: "map_sum id robot_description_params
      (fst (rviz2_launch_generate_launch_description installed)) = Inr [PStr urdf_lf]"
    by (simp add: rviz2_launch_run [OF installed_share_model installed_urdf_file
          installed_urdf_text] robot_description_params_def lf_kept)
  show ?thesis
    by (simp add: r o e d installed_share_model installed_urdf_path)
qed

text \<open>
  C10: both launchers read the URDF at the same path, the share directory of
  \<open>uwrobot_description\<close> joined with \<open>urdf\<close> and \<open>uwrobot.urdf\<close>; so when both return
  under the same package index, files and codec, the \<open>robot_description\<close> that the
  simulation launcher embeds is the one the visualization launcher embeds.
\<close>

theorem launchers_embed_same_description:
  assumes "fst (gazebo_launch_generate_launch_description w) = Inr ld1"
    and "fst (rviz2_launch_generate_launch_description w') = Inr ld2"
    and "share_dirs w' = share_dirs w" and "files w' = files w" and "codec w' = codec w"
  shows "robot_description_params ld1 = robot_description_params ld2
    \<and> length (robot_description_params ld1) = 1
    \<and> (\<exists>pkg_share. share_dirs w ''uwrobot_description'' = Some pkg_share
        \<and> open_calls (snd (gazebo_launch_generate_launch_description w))
          = open_calls w @ [os_path_join pkg_share [''urdf'', ''uwrobot.urdf'']]
        \<and> open_calls (snd (rviz2_launch_generate_launch_description w'))
          = open_calls w' @ [os_path_join pkg_share [''urdf'', ''uwrobot.urdf'']])"
proof -
  from assms(1) obtain pkg_gazebo pkg_model raw decoded where h:
    "share_dirs w ''gazebo_ros'' = Some pkg_gazebo"
    "share_dirs w ''uwrobot_description'' = Some pkg_model"
    "files w (os_path_join pkg_model [''urdf'', ''uwrobot.urdf'']) = Some raw"
    "codec w raw = Some decoded"
    by (rule gazebo_launch_success)
  have h': "share_dirs w' ''uwrobot_description'' = Some pkg_model"
    "files w' (os_path_join pkg_model [''urdf'', ''uwrobot.urdf'']) = Some raw"
    "codec w' raw = Some decoded"
    using h assms(3-5) by simp_all
  from assms(1) gazebo_launch_run [OF h]
  have d1: "robot_description_params ld1 = [PStr (universal_newlines decoded)]"
    by (auto simp add: robot_description_params_def)
  from assms(2) rviz2_launch_run [OF h']
  have d2: "robot_description_params ld2 = [PStr (universal_newlines decoded)]"
    by (auto simp add: robot_description_params_def)
  have o1: "open_calls (snd (gazebo_launch_generate_launch_description w))
      = open_calls w @ [os_path_join pkg_model [''urdf'', ''uwrobot.urdf'']]"
    by (simp add: gazebo_launch_effect h)
  have o2: "open_calls (snd (rviz2_launch_generate_launch_description w'))
      = open_calls w' @ [os_path_join pkg_model [''urdf'', ''uwrobot.urdf'']]"
    by (simp add: rviz2_launch_effect h')
  from d1 d2 have "robot_description_params ld1 = robot_description_params ld2"
    and "length (robot_description_params ld1) = 1"
    by simp_all
  with h(2) o1 o2 show ?thesis
    by blast
qed

theorem launchers_embed_same_description_witness:
  "map_sum id robot_description_params
      (fst (gazebo_launch_generate_launch_description installed))
    = map_sum id robot_description_params
      (fst (rviz2_launch_generate_launch_description installed))
   \<and> \<not> isl (fst (gazebo_launch_generate_launch_description installed))
   \<and> \<not> isl (fst (rviz2_launch_generate_launch_description installed))"
proof -
  obtain ld1 where l1: "fst (gazebo_launch_generate_launch_description installed) = Inr ld1"
    using installed_gazebo_returns by blast
  obtain ld2 where l2: "fst (rviz2_launch_generate_launch_description installed) = Inr ld2"
    using installed_rviz2_returns by blast
  from launchers_embed_same_description [OF l1 l2]
  have "robot_description_params ld1 = robot_description_params ld2"
    by blast
  then show ?thesis
    by (simp add: l1 l2)
qed

end
